theory Spec2Isabelle
  imports Complex_Main
begin

section \<open>The relational store of \<^verbatim>\<open>pms.py\<close>\<close>

text \<open>
  \<^verbatim>\<open>setup_databases\<close> creates the tables; each table is the list of its rows in
  insertion order. Python integers are unbounded (\<open>int\<close>); the \<^verbatim>\<open>REAL\<close> columns and the
  Python floats computed from them are the exact reals, so rounding is outside this
  development. \<^verbatim>\<open>datetime.now().strftime(...)\<close> is a reading of the clock that each
  operation receives as an argument. Storage failures (\<^verbatim>\<open>sqlite3.Error\<close>) do not occur in
  an in-memory list and have no branch here.

  The reason tag of a ledger row is an f-string of the source; each constructor stands for
  one of these templates, with the interpolated values as arguments.
\<close>

datatype reason =
    Initial_stock                 \<comment> \<open>\<^verbatim>\<open>"Initial stock"\<close>\<close>
  | Stock_updated                 \<comment> \<open>\<^verbatim>\<open>"Stock updated"\<close>\<close>
  | Imported_stock                \<comment> \<open>\<^verbatim>\<open>"Imported stock"\<close>\<close>
  | Stock_reconciliation          \<comment> \<open>\<^verbatim>\<open>"Stock reconciliation"\<close>\<close>
  | Sale_of int real              \<comment> \<open>\<^verbatim>\<open>f"Sale of {qty} units with {discount}% discount"\<close>\<close>
  | Sale_edit int int             \<comment> \<open>\<^verbatim>\<open>f"Sale edit (old: {old_qty}, new: {qty})"\<close>\<close>
  | Sale_deletion int             \<comment> \<open>\<^verbatim>\<open>f"Sale deletion ({qty} sold)"\<close>\<close>
  | Invoice_of string             \<comment> \<open>\<^verbatim>\<open>f"Invoice {invoice_number}"\<close>\<close>

record product =
  p_id :: int
  p_name :: string
  p_type :: string
  buy_price :: real
  sell_price :: real
  last_updated :: string
  stock :: int

record stock_entry =
  h_product_id :: int
  h_date :: string
  quantity_change :: int
  h_reason :: reason

record sale =
  s_id :: int
  s_date :: string
  s_item :: string
  s_quantity :: int
  s_sale_price :: real
  s_discount :: real
  s_total :: real
  s_product_id :: int

record invoice =
  i_id :: int
  i_invoice_number :: string
  i_date :: string
  i_customer_name :: string
  i_total :: real
  i_vat :: real
  i_grand_total :: real
  i_timestamp :: string
  i_sale_id :: "int option"

record invoice_item =
  ii_invoice_id :: int
  ii_product_id :: int
  ii_quantity :: int
  ii_unit_price :: real
  ii_discount :: real
  ii_total :: real

text \<open>
  The application state: the tables the stock engine reads and writes, the
  \<^verbatim>\<open>AUTOINCREMENT\<close> counters of the two tables whose fresh ids the code uses, and the
  \<^verbatim>\<open>low_stock_signal\<close> emissions so far (name, new stock).
\<close>

record app_state =
  products :: "product list"
  stock_history :: "stock_entry list"
  daily_accessories_sales :: "sale list"
  sales_seq :: int
  invoices :: "invoice list"
  invoices_seq :: int
  invoice_items :: "invoice_item list"
  low_stock_signal :: "(string \<times> int) list"

text \<open>
  What a handler reports: the message boxes of the source, one constructor per message,
  and the uncaught \<^verbatim>\<open>TypeError\<close> of \<^verbatim>\<open>fetchone()[0]\<close> on an empty result.
\<close>

datatype error =
    InsufficientStock int         \<comment> \<open>stock would go below 0; carries the current stock\<close>
  | NothingSelected               \<comment> \<open>no valid current index, or no sale chosen\<close>
  | FieldsRequired                \<comment> \<open>a required text field is empty\<close>
  | NotParsable                   \<comment> \<open>\<^verbatim>\<open>strptime\<close>, \<^verbatim>\<open>int\<close> or \<^verbatim>\<open>float\<close> raised \<^verbatim>\<open>ValueError\<close>\<close>
  | InvalidValues                 \<comment> \<open>quantity, price or discount out of range\<close>
  | ProductNotFound string
  | SaleNotFound int
  | SaleMismatch
  | InvoiceNumberExists string
  | Declined                      \<comment> \<open>the confirmation dialog was answered No\<close>
  | TypeError

subsection \<open>Queries\<close>

definition product_by_id :: "app_state \<Rightarrow> int \<Rightarrow> product option" where
  \<comment> \<open>\<^verbatim>\<open>SELECT ... FROM products WHERE id=?\<close> followed by \<^verbatim>\<open>fetchone()\<close>\<close>
  "product_by_id s i = find (\<lambda>p. p_id p = i) (products s)"

definition product_by_name :: "app_state \<Rightarrow> string \<Rightarrow> product option" where
  \<comment> \<open>\<^verbatim>\<open>SELECT ... FROM products WHERE name = ?\<close> followed by \<^verbatim>\<open>fetchone()\<close>\<close>
  "product_by_name s n = find (\<lambda>p. p_name p = n) (products s)"

definition sale_by_id :: "app_state \<Rightarrow> int \<Rightarrow> sale option" where
  "sale_by_id s i = find (\<lambda>r. s_id r = i) (daily_accessories_sales s)"

definition sql_sum :: "int list \<Rightarrow> int option" where
  \<comment> \<open>\<^verbatim>\<open>SUM\<close> over no rows is \<^verbatim>\<open>NULL\<close>\<close>
  "sql_sum xs = (if xs = [] then None else Some (sum_list xs))"

definition or_0 :: "int option \<Rightarrow> int" where
  \<comment> \<open>Python's \<^verbatim>\<open>x or 0\<close>\<close>
  "or_0 x = (case x of None \<Rightarrow> 0 | Some v \<Rightarrow> (if v = 0 then 0 else v))"

definition ledger_total :: "stock_entry list \<Rightarrow> int \<Rightarrow> int" where
  \<comment> \<open>\<^verbatim>\<open>SELECT SUM(quantity_change) FROM stock_history WHERE product_id=?\<close>, then \<^verbatim>\<open>or 0\<close>\<close>
  "ledger_total h i = or_0 (sql_sum (map quantity_change (filter (\<lambda>e. h_product_id e = i) h)))"

subsection \<open>\<^verbatim>\<open>update_stock\<close>\<close>

definition set_stock :: "int \<Rightarrow> int \<Rightarrow> string \<Rightarrow> product list \<Rightarrow> product list" where
  \<comment> \<open>\<^verbatim>\<open>UPDATE products SET stock=?, last_updated=? WHERE id=?\<close>\<close>
  "set_stock i n ts ps =
     map (\<lambda>p. if p_id p = i then p\<lparr>last_updated := ts, stock := n\<rparr> else p) ps"

definition update_stock ::
  "string \<Rightarrow> app_state \<Rightarrow> int \<Rightarrow> int \<Rightarrow> reason \<Rightarrow> (error + int) \<times> app_state" where
  "update_stock timestamp s product_id quantity_change' reason' =
     (case product_by_id s product_id of
        None \<Rightarrow> (Inl TypeError, s)
      | Some row \<Rightarrow>
          (let current_stock = stock row;
               new_stock = current_stock + quantity_change'
           in if new_stock < 0 then (Inl (InsufficientStock current_stock), s)
              else
                (let s1 = s\<lparr>products := set_stock product_id new_stock timestamp (products s)\<rparr>;
                     s2 = s1\<lparr>stock_history := stock_history s1 @
                            [\<lparr>h_product_id = product_id, h_date = timestamp,
                              quantity_change = quantity_change', h_reason = reason'\<rparr>]\<rparr>
                 in if new_stock \<le> 5
                    then (case product_by_id s2 product_id of
                            None \<Rightarrow> (Inl TypeError, s2)
                          | Some row' \<Rightarrow>
                              (Inr new_stock,
                               s2\<lparr>low_stock_signal :=
                                     low_stock_signal s2 @ [(p_name row', new_stock)]\<rparr>))
                    else (Inr new_stock, s2))))"

subsection \<open>\<^verbatim>\<open>reconcile_stock\<close>\<close>

text \<open>
  The loop over \<^verbatim>\<open>SELECT id, name, stock FROM products\<close>; the ledger grows while it runs,
  and each sum is taken over the ledger as it stands then. \<open>clock k\<close> is the clock as read
  in the \<open>k\<close>-th iteration.
\<close>

fun reconcile_loop ::
  "(nat \<Rightarrow> string) \<Rightarrow> nat \<Rightarrow> (int \<times> string \<times> int) list \<Rightarrow> stock_entry list \<Rightarrow> stock_entry list"
where
  "reconcile_loop clock k [] h = h"
| "reconcile_loop clock k ((prod_id, name, stock') # rest) h =
     (let total_change = ledger_total h prod_id
      in if total_change \<noteq> stock'
         then (let discrepancy = stock' - total_change
               in reconcile_loop clock (Suc k) rest
                    (h @ [\<lparr>h_product_id = prod_id, h_date = clock k,
                           quantity_change = discrepancy, h_reason = Stock_reconciliation\<rparr>]))
         else reconcile_loop clock (Suc k) rest h)"

definition reconcile_stock :: "(nat \<Rightarrow> string) \<Rightarrow> app_state \<Rightarrow> app_state" where
  "reconcile_stock clock s =
     s\<lparr>stock_history :=
         reconcile_loop clock 0 (map (\<lambda>p. (p_id p, p_name p, stock p)) (products s))
           (stock_history s)\<rparr>"

text \<open>
  The cached stock of every product agrees with its ledger; and what a ledger row says
  apart from its date.
\<close>

definition ledger_consistent :: "app_state \<Rightarrow> bool" where
  "ledger_consistent s =
     (\<forall>p \<in> set (products s). stock p = ledger_total (stock_history s) (p_id p))"

definition correction :: "stock_entry \<Rightarrow> int \<times> int \<times> reason" where
  "correction e = (h_product_id e, quantity_change e, h_reason e)"

section \<open>Transaction coordinators\<close>

text \<open>
  A handler reads the text of its widgets. A text that is parsed (\<^verbatim>\<open>strptime\<close>,
  \<^verbatim>\<open>int\<close>, \<^verbatim>\<open>float\<close>) is empty, or rejected by the parser with \<^verbatim>\<open>ValueError\<close>, or
  accepted with a value.
\<close>

datatype 'a field = Blank | Malformed | Parsed 'a

fun parsed :: "'a field \<Rightarrow> 'a option" where
  "parsed (Parsed v) = Some v"
| "parsed Blank = None"
| "parsed Malformed = None"

definition or_zero_text :: "real field \<Rightarrow> real field" where
  \<comment> \<open>\<^verbatim>\<open>text() or "0"\<close>\<close>
  "or_zero_text t = (if t = Blank then Parsed 0 else t)"

record sale_form =
  sales_date :: "string field"
  sales_item :: string
  sales_quantity :: "int field"
  sales_price :: "real field"
  sales_discount :: "real field"


text \<open>
  \<^verbatim>\<open>edit_sale\<close> and \<^verbatim>\<open>delete_sale\<close> act on the current row of the sales table view;
  \<open>None\<close>, or an index past the last row, is no valid current index. The value
  \<^verbatim>\<open>update_stock\<close> returns is not looked at by either; only an exception ends the handler
  early.
\<close>

definition current_sale :: "app_state \<Rightarrow> nat option \<Rightarrow> sale option" where
  "current_sale s sel =
     (case sel of
        None \<Rightarrow> None
      | Some row \<Rightarrow> if row < length (daily_accessories_sales s)
                    then Some (daily_accessories_sales s ! row) else None)"

definition edit_sale ::
  "string \<Rightarrow> app_state \<Rightarrow> nat option \<Rightarrow> sale_form \<Rightarrow> (error + unit) \<times> app_state" where
  "edit_sale timestamp s sel f =
     (case current_sale s sel of
        None \<Rightarrow> (Inl NothingSelected, s)
      | Some cur \<Rightarrow>
          (let sale_id = s_id cur
           in case (parsed (sales_date f), parsed (sales_quantity f), parsed (sales_price f),
                    parsed (or_zero_text (sales_discount f))) of
                (Some date, Some qty, Some price, Some discount) \<Rightarrow>
                  if qty \<le> 0 \<or> price < 0 \<or> discount < 0 \<or> discount > 100
                  then (Inl InvalidValues, s)
                  else
                    (let subtotal = real_of_int qty * price;
                         discount_amount = subtotal * (discount / 100);
                         total = subtotal - discount_amount
                     in case sale_by_id s sale_id of
                          None \<Rightarrow> (Inl TypeError, s)
                        | Some old \<Rightarrow>
                            (let old_qty = s_quantity old; prod_id = s_product_id old;
                                 stock_change = old_qty - qty;
                                 (r, s1) = (if stock_change \<noteq> 0
                                            then update_stock timestamp s prod_id stock_change
                                                   (Sale_edit old_qty qty)
                                            else (Inr 0, s))
                             in if r = Inl TypeError then (Inl TypeError, s1)
                                else
                                  (Inr (),
                                   s1\<lparr>daily_accessories_sales :=
                                         map (\<lambda>x. if s_id x = sale_id
                                                  then x\<lparr>s_date := date, s_item := sales_item f,
                                                         s_quantity := qty, s_sale_price := price,
                                                         s_discount := discount, s_total := total,
                                                         s_product_id := prod_id\<rparr>
                                                  else x)
                                           (daily_accessories_sales s1)\<rparr>)))
              | _ \<Rightarrow> (Inl NotParsable, s)))"


subsection \<open>\<^verbatim>\<open>add_invoice\<close>\<close>

datatype source = From_Stock | From_Sale

record invoice_form =
  invoice_date :: "string field"
  customer_name :: string
  invoice_source :: source
  sale_selector :: "int option"        \<comment> \<open>\<^verbatim>\<open>currentData()\<close>\<close>
  product_selector :: string
  invoice_quantity :: "int field"
  invoice_discount :: "real field"

definition invoice_number_of :: "string \<Rightarrow> string" where
  \<comment> \<open>\<^verbatim>\<open>f"INV-{timestamp.replace(' ', '-').replace(':', '')}"\<close>\<close>
  "invoice_number_of timestamp =
     ''INV-'' @ filter (\<lambda>c. c \<noteq> CHR '':'')
                 (map (\<lambda>c. if c = CHR '' '' then CHR ''-'' else c) timestamp)"

text \<open>
  The part of \<^verbatim>\<open>add_invoice\<close> inside \<^verbatim>\<open>try\<close>, once the product name, the quantity
  and the discount are at hand: from the form for an invoice from stock, from the referenced
  sale for an invoice from a sale. \<open>timestamp'\<close> is the clock as \<^verbatim>\<open>update_stock\<close>
  reads it.
\<close>

definition write_invoice ::
  "string \<Rightarrow> string \<Rightarrow> app_state \<Rightarrow> invoice_form \<Rightarrow> int option \<Rightarrow> string \<Rightarrow> int field
     \<Rightarrow> real field \<Rightarrow> (error + unit) \<times> app_state" where
  "write_invoice timestamp timestamp' s f sale_id product_name qty_text discount_text =
     (case (parsed (invoice_date f), parsed qty_text, parsed discount_text) of
        (Some date, Some qty, Some discount) \<Rightarrow>
          if qty \<le> 0 then (Inl InvalidValues, s)
          else if discount < 0 \<or> discount > 100 then (Inl InvalidValues, s)
          else
            (case product_by_name s product_name of
               None \<Rightarrow> (Inl (ProductNotFound product_name), s)
             | Some result \<Rightarrow>
                 (let prod_id = p_id result; unit_price = sell_price result;
                      stock' = stock result;
                      mismatch =
                        (case (invoice_source f, sale_id) of
                           (From_Sale, Some sid) \<Rightarrow>
                             sid \<noteq> 0 \<and>
                             (case sale_by_id s sid of
                                None \<Rightarrow> True
                              | Some sale_data \<Rightarrow>
                                  s_product_id sale_data \<noteq> prod_id \<or>
                                  s_quantity sale_data \<noteq> qty \<or>
                                  s_discount sale_data \<noteq> discount)
                         | _ \<Rightarrow> False)
                  in if mismatch then (Inl SaleMismatch, s)
                     else if invoice_source f = From_Stock \<and> stock' < qty
                     then (Inl (InsufficientStock stock'), s)
                     else
                       (let subtotal = real_of_int qty * unit_price;
                            discount_amount = subtotal * (discount / 100);
                            total = subtotal - discount_amount;
                            vat_rate = 13 / 100;
                            vat = total * vat_rate;
                            grand_total = total + vat;
                            invoice_number = invoice_number_of timestamp
                        in if filter (\<lambda>i. i_invoice_number i = invoice_number) (invoices s) \<noteq> []
                           then (Inl (InvoiceNumberExists invoice_number), s)
                           else
                             (let invoice_id = invoices_seq s + 1;
                                  s1 = s\<lparr>invoices := invoices s @
                                          [\<lparr>i_id = invoice_id, i_invoice_number = invoice_number,
                                            i_date = date, i_customer_name = customer_name f,
                                            i_total = total, i_vat = vat,
                                            i_grand_total = grand_total,
                                            i_timestamp = timestamp, i_sale_id = sale_id\<rparr>],
                                        invoices_seq := invoice_id\<rparr>;
                                  s2 = s1\<lparr>invoice_items := invoice_items s1 @
                                          [\<lparr>ii_invoice_id = invoice_id, ii_product_id = prod_id,
                                            ii_quantity = qty, ii_unit_price = unit_price,
                                            ii_discount = discount, ii_total = total\<rparr>]\<rparr>
                              in if invoice_source f = From_Stock
                                 then (case update_stock timestamp' s2 prod_id (- qty)
                                              (Invoice_of invoice_number) of
                                         (Inl TypeError, s3) \<Rightarrow> (Inl TypeError, s3)
                                       | (_, s3) \<Rightarrow> (Inr (), s3))
                                 else (Inr (), s2)))))
      | _ \<Rightarrow> (Inl NotParsable, s))"

definition add_invoice ::
  "string \<Rightarrow> string \<Rightarrow> app_state \<Rightarrow> invoice_form \<Rightarrow> (error + unit) \<times> app_state" where
  "add_invoice timestamp timestamp' s f =
     (let sale_id = (if invoice_source f = From_Sale then sale_selector f else None)
      in if invoice_source f = From_Stock
         then
           (if invoice_date f = Blank \<or> customer_name f = [] \<or> product_selector f = [] \<or>
               invoice_quantity f = Blank
            then (Inl FieldsRequired, s)
            else write_invoice timestamp timestamp' s f sale_id (product_selector f)
                   (invoice_quantity f) (or_zero_text (invoice_discount f)))
         else
           (case sale_id of
              None \<Rightarrow> (Inl NothingSelected, s)
            | Some sid \<Rightarrow>
                if sid = 0 then (Inl NothingSelected, s)
                else
                  (case sale_by_id s sid of
                     None \<Rightarrow> (Inl (SaleNotFound sid), s)
                   | Some result \<Rightarrow>
                       if invoice_date f = Blank \<or> customer_name f = []
                       then (Inl FieldsRequired, s)
                       else write_invoice timestamp timestamp' s f sale_id (s_item result)
                              (Parsed (s_quantity result)) (Parsed (s_discount result)))))"

section \<open>The product filter\<close>

text \<open>
  \<^verbatim>\<open>AdvancedProductFilterModel\<close>. Strings are byte strings, and \<^verbatim>\<open>lower()\<close> acts on the
  letters A to Z. The pattern engine of \<^verbatim>\<open>re\<close> is an argument: \<open>re_compile v\<close> is
  \<^verbatim>\<open>re.compile(v, re.IGNORECASE)\<close>, \<open>None\<close> where it raises \<^verbatim>\<open>re.error\<close>, and a
  compiled pattern is its \<^verbatim>\<open>search\<close>, true where it finds a match.
\<close>

definition lower_char :: "char \<Rightarrow> char" where
  "lower_char c =
     (let n = (of_char c :: nat) in if 65 \<le> n \<and> n \<le> 90 then char_of (n + 32) else c)"

definition lower :: "string \<Rightarrow> string" where
  "lower v = map lower_char v"

fun startswith :: "string \<Rightarrow> string \<Rightarrow> bool" where
  "startswith hay [] = True"
| "startswith [] (x # xs) = False"
| "startswith (h # hay) (x # xs) = (h = x \<and> startswith hay xs)"

fun contains :: "string \<Rightarrow> string \<Rightarrow> bool" where
  \<comment> \<open>\<^verbatim>\<open>needle in hay\<close>\<close>
  "contains [] needle = (needle = [])"
| "contains (h # hay) needle = (startswith (h # hay) needle \<or> contains hay needle)"

fun str_le :: "string \<Rightarrow> string \<Rightarrow> bool" where
  \<comment> \<open>\<^verbatim>\<open>a <= b\<close> on strings\<close>
  "str_le [] b = True"
| "str_le (x # a) [] = False"
| "str_le (x # a) (y # b) =
     ((of_char x :: nat) < of_char y \<or> (x = y \<and> str_le a b))"

record filters =
  f_name :: string
  f_type :: string
  f_min_buy :: "real option"
  f_max_buy :: "real option"
  f_min_sell :: "real option"
  f_max_sell :: "real option"
  f_updated_after :: "string option"
  f_name_regex :: "(string \<Rightarrow> bool) option"
  f_stock_min :: "int option"
  f_stock_max :: "int option"

definition init_filters :: filters where
  "init_filters =
     \<lparr>f_name = [], f_type = [], f_min_buy = None, f_max_buy = None, f_min_sell = None,
      f_max_sell = None, f_updated_after = None, f_name_regex = None, f_stock_min = None,
      f_stock_max = None\<rparr>"

text \<open>One keyword argument of \<^verbatim>\<open>setFilterCriteria\<close>; a key that is not in
  \<^verbatim>\<open>self.filters\<close> is \<open>K_other\<close>.\<close>

datatype kwarg =
    K_name string
  | K_type string
  | K_min_buy "real option"
  | K_max_buy "real option"
  | K_min_sell "real option"
  | K_max_sell "real option"
  | K_updated_after "string option"
  | K_name_regex "(string \<Rightarrow> bool) option"
  | K_stock_min "int option"
  | K_stock_max "int option"
  | K_other

fun set_criterion :: "(string \<Rightarrow> (string \<Rightarrow> bool) option) \<Rightarrow> filters \<Rightarrow> kwarg \<Rightarrow> filters" where
  "set_criterion re_compile fs (K_name v) =
     fs\<lparr>f_name := (if v \<noteq> [] then lower v else []),
        f_name_regex := (if v \<noteq> [] then re_compile v else None)\<rparr>"
| "set_criterion re_compile fs (K_type v) =
     fs\<lparr>f_type := (if v \<noteq> [] \<and> v \<noteq> ''All Types'' then v else [])\<rparr>"
| "set_criterion re_compile fs (K_min_buy v) = fs\<lparr>f_min_buy := v\<rparr>"
| "set_criterion re_compile fs (K_max_buy v) = fs\<lparr>f_max_buy := v\<rparr>"
| "set_criterion re_compile fs (K_min_sell v) = fs\<lparr>f_min_sell := v\<rparr>"
| "set_criterion re_compile fs (K_max_sell v) = fs\<lparr>f_max_sell := v\<rparr>"
| "set_criterion re_compile fs (K_updated_after v) = fs\<lparr>f_updated_after := v\<rparr>"
| "set_criterion re_compile fs (K_name_regex v) = fs\<lparr>f_name_regex := v\<rparr>"
| "set_criterion re_compile fs (K_stock_min v) = fs\<lparr>f_stock_min := v\<rparr>"
| "set_criterion re_compile fs (K_stock_max v) = fs\<lparr>f_stock_max := v\<rparr>"
| "set_criterion re_compile fs K_other = fs"

definition setFilterCriteria ::
  "(string \<Rightarrow> (string \<Rightarrow> bool) option) \<Rightarrow> filters \<Rightarrow> kwarg list \<Rightarrow> filters" where
  "setFilterCriteria re_compile fs kwargs = foldl (set_criterion re_compile) fs kwargs"

text \<open>
  The cells of one row of the source model (\<^verbatim>\<open>model.index(source_row, k).data()\<close>),
  \<open>None\<close> for a null cell. \<^verbatim>\<open>x or d\<close>, with \<open>d\<close> the falsy value of the cell's type, is
  \<open>d\<close> on a null cell and \<open>x\<close> otherwise.
\<close>

record cells =
  c_name :: "string option"
  c_type :: "string option"
  c_buy_price :: "real option"
  c_sell_price :: "real option"
  c_last_updated :: "string option"
  c_stock :: "int option"

definition data_or :: "'a option \<Rightarrow> 'a \<Rightarrow> 'a" where
  "data_or x d = (case x of None \<Rightarrow> d | Some v \<Rightarrow> v)"

text \<open>The cells the products table model shows for a product row.\<close>

definition cells_of :: "product \<Rightarrow> cells" where
  "cells_of p = \<lparr>c_name = Some (p_name p), c_type = Some (p_type p),
     c_buy_price = Some (buy_price p), c_sell_price = Some (sell_price p),
     c_last_updated = Some (last_updated p), c_stock = Some (stock p)\<rparr>"

definition filterAcceptsRow :: "filters \<Rightarrow> cells \<Rightarrow> bool" where
  "filterAcceptsRow fs source_row =
     (let name = lower (data_or (c_name source_row) []);
          type' = data_or (c_type source_row) [];
          buy = data_or (c_buy_price source_row) 0;
          sell = data_or (c_sell_price source_row) 0;
          updated = data_or (c_last_updated source_row) [];
          stock' = data_or (c_stock source_row) 0;
          conditions =
            [if f_name fs \<noteq> []
             then contains name (f_name fs) \<or>
                  (case f_name_regex fs of None \<Rightarrow> False | Some search \<Rightarrow> search name)
             else True,
             if f_type fs \<noteq> [] then type' = f_type fs else True,
             case f_min_buy fs of None \<Rightarrow> True | Some b \<Rightarrow> buy \<ge> b,
             case f_max_buy fs of None \<Rightarrow> True | Some b \<Rightarrow> buy \<le> b,
             case f_min_sell fs of None \<Rightarrow> True | Some b \<Rightarrow> sell \<ge> b,
             case f_max_sell fs of None \<Rightarrow> True | Some b \<Rightarrow> sell \<le> b,
             case f_updated_after fs of
               None \<Rightarrow> True | Some d \<Rightarrow> if d \<noteq> [] then str_le d updated else True,
             case f_stock_min fs of None \<Rightarrow> True | Some b \<Rightarrow> stock' \<ge> b,
             case f_stock_max fs of None \<Rightarrow> True | Some b \<Rightarrow> stock' \<le> b]
      in list_all (\<lambda>c. c) conditions)"

section \<open>Example states\<close>

definition charger :: product where
  "charger = \<lparr>p_id = 1, p_name = ''Charger'', p_type = ''Chargers'', buy_price = 50,
     sell_price = 100, last_updated = ''2025-01-01 09:00:00'', stock = 10\<rparr>"

definition shop :: app_state where
  "shop = \<lparr>products = [charger],
     stock_history = [\<lparr>h_product_id = 1, h_date = ''2025-01-01 09:00:00'', quantity_change = 10,
                       h_reason = Initial_stock\<rparr>],
     daily_accessories_sales = [], sales_seq = 0, invoices = [], invoices_seq = 0,
     invoice_items = [], low_stock_signal = []\<rparr>"

definition drifted :: app_state where
  "drifted = shop\<lparr>products := [charger\<lparr>stock := 50\<rparr>]\<rparr>"


definition first_sale :: sale where
  "first_sale = \<lparr>s_id = 1, s_date = ''2025-01-02'', s_item = ''Charger'', s_quantity = 2,
     s_sale_price = 100, s_discount = 0, s_total = 200, s_product_id = 1\<rparr>"

definition low_stock_shop :: app_state where
  "low_stock_shop =
     \<lparr>products = [charger\<lparr>stock := 3\<rparr>],
      stock_history =
        [\<lparr>h_product_id = 1, h_date = ''2025-01-01 09:00:00'', quantity_change = 5,
          h_reason = Initial_stock\<rparr>,
         \<lparr>h_product_id = 1, h_date = ''2025-01-02 10:00:00'', quantity_change = - 2,
          h_reason = Sale_of 2 0\<rparr>],
      daily_accessories_sales = [first_sale],
      sales_seq = 1, invoices = [], invoices_seq = 0, invoice_items = [],
      low_stock_signal = [(''Charger'', 3)]\<rparr>"

definition edit_form :: "string \<Rightarrow> int \<Rightarrow> sale_form" where
  "edit_form item' q = \<lparr>sales_date = Parsed ''2025-01-02'', sales_item = item',
     sales_quantity = Parsed q, sales_price = Parsed 100, sales_discount = Blank\<rparr>"

definition cable :: product where
  "cable = \<lparr>p_id = 2, p_name = ''Cable'', p_type = ''Cables'', buy_price = 10,
     sell_price = 20, last_updated = ''2025-01-01 09:00:00'', stock = 4\<rparr>"

definition renamed_sale :: sale where
  "renamed_sale = \<lparr>s_id = 2, s_date = ''2025-01-02'', s_item = ''Cable'', s_quantity = 1,
     s_sale_price = 100, s_discount = 0, s_total = 100, s_product_id = 1\<rparr>"

definition invoicing_shop :: app_state where
  "invoicing_shop =
     \<lparr>products = [charger, cable], stock_history = [],
      daily_accessories_sales = [first_sale, renamed_sale],
      sales_seq = 2, invoices = [], invoices_seq = 0, invoice_items = [],
      low_stock_signal = []\<rparr>"

definition invoice_for :: "source \<Rightarrow> int option \<Rightarrow> string \<Rightarrow> string \<Rightarrow> int \<Rightarrow> invoice_form" where
  "invoice_for src sid customer product' q =
     \<lparr>invoice_date = Parsed ''2025-01-03'', customer_name = customer, invoice_source = src,
      sale_selector = sid, product_selector = product', invoice_quantity = Parsed q,
      invoice_discount = Parsed 0\<rparr>"

text \<open>
  A pattern engine for the examples: a text of letters, digits and spaces is a pattern
  that is found where the text occurs, whatever the case; any other text is not a valid
  pattern.
\<close>

definition plain_char :: "char \<Rightarrow> bool" where
  "plain_char c =
     (let k = (of_char c :: nat)
      in k = 32 \<or> (48 \<le> k \<and> k \<le> 57) \<or> (65 \<le> k \<and> k \<le> 90) \<or> (97 \<le> k \<and> k \<le> 122))"

definition plain_compile :: "string \<Rightarrow> (string \<Rightarrow> bool) option" where
  "plain_compile v =
     (if list_all plain_char v then Some (\<lambda>text. contains (lower text) (lower v)) else None)"

section \<open>Helper facts\<close>

lemma ledger_total_eq: "ledger_total h i = sum_list (map quantity_change (filter (\<lambda>e. h_product_id e = i) h))"
  by (simp add: ledger_total_def or_0_def sql_sum_def)

lemma ledger_total_append: "ledger_total (h @ h') i = ledger_total h i + ledger_total h' i"
  by (simp add: ledger_total_eq)

lemma find_set_stock:
  "find (\<lambda>p. p_id p = j) (set_stock i n ts ps) =
     (if j = i then map_option (\<lambda>p. p\<lparr>last_updated := ts, stock := n\<rparr>) (find (\<lambda>p. p_id p = j) ps)
      else find (\<lambda>p. p_id p = j) ps)"
  by (induction ps) (auto simp: set_stock_def)

lemma update_stock_rejected:
  assumes "product_by_id s i = Some row" and "stock row + d < 0"
  shows "update_stock ts s i d r = (Inl (InsufficientStock (stock row)), s)"
  using assms by (simp add: update_stock_def)

lemma update_stock_accepted:
  assumes "product_by_id s i = Some row" and "0 \<le> stock row + d"
  shows "update_stock ts s i d r =
     (Inr (stock row + d),
      s\<lparr>products := set_stock i (stock row + d) ts (products s),
        stock_history := stock_history s @
          [\<lparr>h_product_id = i, h_date = ts, quantity_change = d, h_reason = r\<rparr>],
        low_stock_signal := low_stock_signal s @
          (if stock row + d \<le> 5 then [(p_name row, stock row + d)] else [])\<rparr>)"
  using assms
  by (auto simp: update_stock_def Let_def product_by_id_def find_set_stock)

lemma shop_charger: "product_by_id shop 1 = Some charger"
  by (simp add: product_by_id_def shop_def charger_def)

lemma reconcile_loop_other:
  "j \<notin> fst ` set rows \<Longrightarrow> ledger_total (reconcile_loop clock k rows h) j = ledger_total h j"
proof (induction rows arbitrary: h k)
  case Nil
  then show ?case by simp
next
  case (Cons row rows)
  obtain i n st where row: "row = (i, n, st)" by (cases row)
  from Cons.prems row have "j \<noteq> i" and "j \<notin> fst ` set rows" by auto
  then show ?case
    by (simp add: row Let_def Cons.IH ledger_total_append) (simp add: ledger_total_eq)
qed

lemma reconcile_loop_establishes:
  "distinct (map fst rows) \<Longrightarrow> (i, n, st) \<in> set rows \<Longrightarrow>
     ledger_total (reconcile_loop clock k rows h) i = st"
proof (induction rows arbitrary: h k)
  case Nil
  then show ?case by simp
next
  case (Cons row rows)
  obtain i' n' st' where row: "row = (i', n', st')" by (cases row)
  from Cons.prems(1) row have fresh: "i' \<notin> fst ` set rows" and d: "distinct (map fst rows)"
    by auto
  show ?case
  proof (cases "(i, n, st) \<in> set rows")
    case True
    then show ?thesis using Cons.IH [OF d True] by (simp add: row Let_def)
  next
    case False
    with Cons.prems(2) row have eq: "i' = i" "n' = n" "st' = st" by auto
    show ?thesis
      using fresh
      by (simp add: row eq Let_def reconcile_loop_other ledger_total_append)
         (simp add: ledger_total_eq)
  qed
qed

lemma reconcile_loop_settled:
  "(\<forall>(i, n, st) \<in> set rows. ledger_total h i = st) \<Longrightarrow> reconcile_loop clock k rows h = h"
  by (induction rows arbitrary: k) (auto simp: Let_def)

lemma reconcile_loop_appends:
  "distinct (map fst rows) \<Longrightarrow>
   \<exists>corr. reconcile_loop clock k rows h = h @ corr \<and>
     map correction corr =
       map (\<lambda>(i, n, st). (i, st - ledger_total h i, Stock_reconciliation))
         (filter (\<lambda>(i, n, st). ledger_total h i \<noteq> st) rows)"
proof (induction rows arbitrary: h k)
  case Nil
  then show ?case by simp
next
  case (Cons row rows)
  obtain i n st where row: "row = (i, n, st)" by (cases row)
  from Cons.prems row have fresh: "i \<notin> fst ` set rows" and d: "distinct (map fst rows)"
    by auto
  define e where "e = \<lparr>h_product_id = i, h_date = clock k,
    quantity_change = st - ledger_total h i, h_reason = Stock_reconciliation\<rparr>"
  have same: "ledger_total (h @ [e]) j = ledger_total h j" if "(j, m, t) \<in> set rows" for j m t
  proof -
    from that fresh have "j \<noteq> i" by force
    then show ?thesis by (simp add: ledger_total_eq e_def)
  qed
  show ?case
  proof (cases "ledger_total h i = st")
    case True
    with Cons.IH [OF d, of "Suc k" h] show ?thesis by (simp add: row)
  next
    case False
    from Cons.IH [OF d, of "Suc k" "h @ [e]"] obtain corr where
      run: "reconcile_loop clock (Suc k) rows (h @ [e]) = (h @ [e]) @ corr" and
      corr: "map correction corr =
        map (\<lambda>(j, m, t). (j, t - ledger_total (h @ [e]) j, Stock_reconciliation))
          (filter (\<lambda>(j, m, t). ledger_total (h @ [e]) j \<noteq> t) rows)"
      by blast
    have f: "filter (\<lambda>(j, m, t). ledger_total (h @ [e]) j \<noteq> t) rows =
             filter (\<lambda>(j, m, t). ledger_total h j \<noteq> t) rows"
      by (rule filter_cong) (auto simp: same)
    have m: "map (\<lambda>(j, m, t). (j, t - ledger_total (h @ [e]) j, Stock_reconciliation))
               (filter (\<lambda>(j, m, t). ledger_total h j \<noteq> t) rows) =
             map (\<lambda>(j, m, t). (j, t - ledger_total h j, Stock_reconciliation))
               (filter (\<lambda>(j, m, t). ledger_total h j \<noteq> t) rows)"
      by (rule map_cong) (auto simp: same)
    have "reconcile_loop clock k (row # rows) h = h @ (e # corr)"
      using False run by (simp add: row Let_def e_def)
    moreover have "map correction (e # corr) =
       map (\<lambda>(i, n, st). (i, st - ledger_total h i, Stock_reconciliation))
         (filter (\<lambda>(i, n, st). ledger_total h i \<noteq> st) (row # rows))"
      using False by (simp add: row corr f m) (simp add: correction_def e_def)
    ultimately show ?thesis by blast
  qed
qed

lemma reconcile_stock_consistent:
  assumes "distinct (map p_id (products s))"
  shows "ledger_consistent (reconcile_stock clock s)"
proof -
  let ?rows = "map (\<lambda>p. (p_id p, p_name p, stock p)) (products s)"
  have d: "distinct (map fst ?rows)" using assms by (simp add: comp_def)
  show ?thesis
    unfolding ledger_consistent_def
  proof
    fix p assume "p \<in> set (products (reconcile_stock clock s))"
    then have "(p_id p, p_name p, stock p) \<in> set ?rows" by (auto simp: reconcile_stock_def)
    from reconcile_loop_establishes [OF d this]
    show "stock p = ledger_total (stock_history (reconcile_stock clock s)) (p_id p)"
      by (simp add: reconcile_stock_def)
  qed
qed

lemma reconcile_stock_settled:
  "ledger_consistent s \<Longrightarrow> reconcile_stock clock s = s"
  by (simp add: reconcile_stock_def ledger_consistent_def reconcile_loop_settled)

lemma update_stock_consistent:
  assumes inv: "ledger_consistent s" and ok: "update_stock ts s i d r = (Inr n, s')"
  shows "ledger_consistent s'"
proof (cases "product_by_id s i")
  case None
  with ok show ?thesis by (simp add: update_stock_def)
next
  case (Some row)
  from ok Some have nonneg: "0 \<le> stock row + d"
    by (cases "stock row + d < 0") (simp_all add: update_stock_rejected)
  from Some have mem: "row \<in> set (products s)" and id: "p_id row = i"
    by (auto simp: product_by_id_def find_Some_iff)
  from inv mem id have row: "stock row = ledger_total (stock_history s) i"
    by (auto simp: ledger_consistent_def)
  from ok update_stock_accepted [OF Some nonneg, of ts r]
  have s': "products s' = set_stock i (stock row + d) ts (products s)"
           "stock_history s' = stock_history s @
              [\<lparr>h_product_id = i, h_date = ts, quantity_change = d, h_reason = r\<rparr>]"
    by auto
  show ?thesis
    unfolding ledger_consistent_def
  proof
    fix p assume "p \<in> set (products s')"
    then obtain q where q: "q \<in> set (products s)"
      and p: "p = (if p_id q = i then q\<lparr>last_updated := ts, stock := stock row + d\<rparr> else q)"
      by (auto simp: s' set_stock_def)
    from inv q have "stock q = ledger_total (stock_history s) (p_id q)"
      by (auto simp: ledger_consistent_def)
    then show "stock p = ledger_total (stock_history s') (p_id p)"
      using row by (auto simp: p s' ledger_total_eq)
  qed
qed

section \<open>The stock mutation\<close>

text \<open>
  Claim C1. For a product of the table and any delta: if the current stock plus the delta is
  negative, \<^verbatim>\<open>update_stock\<close> reports insufficient stock with the current stock and
  leaves the whole state as it was (no new stock is returned, the stock field and the ledger
  are unchanged); otherwise it returns the current stock plus the delta, the product's stock
  is that value afterwards, and the ledger is the old ledger followed by exactly one entry,
  for this product and with this delta.
\<close>

theorem update_stock_guard:
  assumes "product_by_id s i = Some row"
  shows "(stock row + d < 0 \<longrightarrow>
            update_stock ts s i d r = (Inl (InsufficientStock (stock row)), s)) \<and>
         (0 \<le> stock row + d \<longrightarrow>
            fst (update_stock ts s i d r) = Inr (stock row + d) \<and>
            map_option stock (product_by_id (snd (update_stock ts s i d r)) i) =
              Some (stock row + d) \<and>
            stock_history (snd (update_stock ts s i d r)) =
              stock_history s @
                [\<lparr>h_product_id = i, h_date = ts, quantity_change = d, h_reason = r\<rparr>])"
proof (intro conjI impI)
  assume "stock row + d < 0"
  with assms show "update_stock ts s i d r = (Inl (InsufficientStock (stock row)), s)"
    by (rule update_stock_rejected)
next
  assume ok: "0 \<le> stock row + d"
  note eq = update_stock_accepted [OF assms ok, of ts r]
  show "fst (update_stock ts s i d r) = Inr (stock row + d)"
    by (simp add: eq)
  show "map_option stock (product_by_id (snd (update_stock ts s i d r)) i) = Some (stock row + d)"
    using assms by (simp add: eq product_by_id_def find_set_stock)
  show "stock_history (snd (update_stock ts s i d r)) =
          stock_history s @ [\<lparr>h_product_id = i, h_date = ts, quantity_change = d, h_reason = r\<rparr>]"
    by (simp add: eq)
qed

theorem update_stock_guard_witness:
  "update_stock ''t'' shop 1 (- 11) Stock_updated = (Inl (InsufficientStock 10), shop) \<and>
   fst (update_stock ''t'' shop 1 (- 4) Stock_updated) = Inr 6 \<and>
   map_option stock (product_by_id (snd (update_stock ''t'' shop 1 (- 4) Stock_updated)) 1) =
     Some 6 \<and>
   length (stock_history (snd (update_stock ''t'' shop 1 (- 4) Stock_updated))) = 2"
  using update_stock_guard [OF shop_charger, of "- 11" "''t''" Stock_updated]
        update_stock_guard [OF shop_charger, of "- 4" "''t''" Stock_updated]
  by (simp add: charger_def shop_def)

text \<open>
  Claim C4. A successful \<^verbatim>\<open>update_stock\<close> emits the low-stock signal, once and with the
  product's name and the new stock, exactly when the new stock is at most 5; a call that
  fails emits nothing.
\<close>

theorem low_stock_alert:
  "(\<forall>n s'. update_stock ts s i d r = (Inr n, s') \<longrightarrow>
      (\<exists>row. product_by_id s i = Some row \<and>
         low_stock_signal s' =
           low_stock_signal s @ (if n \<le> 5 then [(p_name row, n)] else []))) \<and>
   (\<forall>e s'. update_stock ts s i d r = (Inl e, s') \<longrightarrow> low_stock_signal s' = low_stock_signal s)"
proof (cases "product_by_id s i")
  case None
  then show ?thesis by (simp add: update_stock_def)
next
  case (Some row)
  show ?thesis
  proof (cases "stock row + d < 0")
    case True
    with Some show ?thesis by (simp add: update_stock_rejected)
  next
    case False
    then have "0 \<le> stock row + d" by simp
    from update_stock_accepted [OF Some this, of ts r] Some show ?thesis by auto
  qed
qed

theorem low_stock_alert_witness:
  "low_stock_signal (snd (update_stock ''t'' shop 1 (- 5) Stock_updated)) = [(''Charger'', 5)] \<and>
   low_stock_signal (snd (update_stock ''t'' shop 1 (- 4) Stock_updated)) = [] \<and>
   low_stock_signal (snd (update_stock ''t'' shop 1 (- 11) Stock_updated)) = []"
  using low_stock_alert [of "''t''" shop 1 "- 5" Stock_updated]
  by (simp add: update_stock_def product_by_id_def set_stock_def shop_def charger_def)

section \<open>Reconciliation and the ledger invariant\<close>

text \<open>
  Claim C3. In a products table whose ids are distinct (\<^verbatim>\<open>id INTEGER PRIMARY KEY\<close>), one
  run of \<^verbatim>\<open>reconcile_stock\<close> leaves the old ledger in place and appends, in the order
  of the products, exactly one entry for each product whose ledger sum differs from its
  stock, with delta stock minus sum and the reason \<^verbatim>\<open>"Stock reconciliation"\<close>, and no entry
  for any other product; a second run right after the first changes nothing.
\<close>

theorem reconcile_corrections:
  assumes "distinct (map p_id (products s))"
  shows "(\<exists>corr. stock_history (reconcile_stock clock s) = stock_history s @ corr \<and>
            map correction corr =
              map (\<lambda>p. (p_id p, stock p - ledger_total (stock_history s) (p_id p),
                         Stock_reconciliation))
                (filter (\<lambda>p. ledger_total (stock_history s) (p_id p) \<noteq> stock p) (products s))) \<and>
         reconcile_stock clock' (reconcile_stock clock s) = reconcile_stock clock s"
proof
  let ?rows = "map (\<lambda>p. (p_id p, p_name p, stock p)) (products s)"
  have d: "distinct (map fst ?rows)" using assms by (simp add: comp_def)
  from reconcile_loop_appends [OF d, of clock 0 "stock_history s"]
  show "\<exists>corr. stock_history (reconcile_stock clock s) = stock_history s @ corr \<and>
            map correction corr =
              map (\<lambda>p. (p_id p, stock p - ledger_total (stock_history s) (p_id p),
                         Stock_reconciliation))
                (filter (\<lambda>p. ledger_total (stock_history s) (p_id p) \<noteq> stock p) (products s))"
    by (simp add: reconcile_stock_def filter_map comp_def)
  show "reconcile_stock clock' (reconcile_stock clock s) = reconcile_stock clock s"
    by (rule reconcile_stock_settled) (rule reconcile_stock_consistent [OF assms])
qed

lemma drifted_ids: "distinct (map p_id (products drifted))"
  by (simp add: drifted_def shop_def)

theorem reconcile_corrections_witness:
  "distinct (map p_id (products drifted)) \<and>
   map correction (drop 1 (stock_history (reconcile_stock (\<lambda>k. ''t'') drifted))) =
     [(1, 40, Stock_reconciliation)] \<and>
   reconcile_stock (\<lambda>k. ''u'') (reconcile_stock (\<lambda>k. ''t'') drifted) =
     reconcile_stock (\<lambda>k. ''t'') drifted"
proof -
  have "map correction (drop 1 (stock_history (reconcile_stock (\<lambda>k. ''t'') drifted))) =
     [(1, 40, Stock_reconciliation)]"
    by (simp add: reconcile_stock_def drifted_def shop_def charger_def ledger_total_eq
          correction_def Let_def)
  with drifted_ids reconcile_corrections [OF drifted_ids, of "\<lambda>k. ''t''" "\<lambda>k. ''u''"]
  show ?thesis by simp
qed

text \<open>
  Claim C2, as the code has it. After a run of \<^verbatim>\<open>reconcile_stock\<close> (ids distinct) the
  stock of every product equals the sum of its ledger deltas. A successful
  \<^verbatim>\<open>update_stock\<close> keeps that equality when it held before the call: it adds the same
  delta to the stock and to the ledger, and does not repair a drift that was there.
\<close>

theorem ledger_invariant:
  "(distinct (map p_id (products s)) \<longrightarrow> ledger_consistent (reconcile_stock clock s)) \<and>
   (ledger_consistent s \<longrightarrow>
      (\<forall>n s'. update_stock ts s i d r = (Inr n, s') \<longrightarrow> ledger_consistent s'))"
  using reconcile_stock_consistent update_stock_consistent by blast

lemma shop_consistent: "ledger_consistent shop"
  by (simp add: ledger_consistent_def shop_def charger_def ledger_total_eq)

theorem ledger_invariant_witness:
  "ledger_consistent shop \<and>
   update_stock ''t'' shop 1 (- 4) Stock_updated =
     (Inr 6, snd (update_stock ''t'' shop 1 (- 4) Stock_updated)) \<and>
   ledger_consistent (snd (update_stock ''t'' shop 1 (- 4) Stock_updated)) \<and>
   distinct (map p_id (products drifted)) \<and>
   ledger_consistent (reconcile_stock (\<lambda>k. ''t'') drifted)"
proof -
  have run: "update_stock ''t'' shop 1 (- 4) Stock_updated =
     (Inr 6, snd (update_stock ''t'' shop 1 (- 4) Stock_updated))"
    by (simp add: update_stock_def product_by_id_def shop_def charger_def)
  from ledger_invariant [of drifted "\<lambda>k. ''t''"]
    ledger_invariant [of shop _ "''t''" 1 "- 4" Stock_updated]
    shop_consistent drifted_ids run
  show ?thesis by blast
qed

text \<open>
  The equality is not established by a mutation: with stock 50 against a ledger sum of 10,
  adding one unit succeeds and leaves stock 51 against a ledger sum of 11.
\<close>

theorem update_stock_keeps_drift:
  "fst (update_stock ''t'' drifted 1 1 Stock_updated) = Inr 51 \<and>
   map_option stock (product_by_id (snd (update_stock ''t'' drifted 1 1 Stock_updated)) 1) =
     Some 51 \<and>
   ledger_total (stock_history (snd (update_stock ''t'' drifted 1 1 Stock_updated))) 1 = 11"
  by (simp add: update_stock_def product_by_id_def set_stock_def drifted_def shop_def
        charger_def ledger_total_eq)

section \<open>Sales\<close>

lemma find_by_distinct_key:
  "distinct (map key xs) \<Longrightarrow> x \<in> set xs \<Longrightarrow> find (\<lambda>y. key y = key x) xs = Some x"
  by (induction xs) force+

lemma product_by_name_id:
  assumes "distinct (map p_id (products s))" and "product_by_name s n = Some row"
  shows "product_by_id s (p_id row) = Some row"
proof -
  from assms(2) have "row \<in> set (products s)"
    by (auto simp: product_by_name_def find_Some_iff)
  with assms(1) show ?thesis
    unfolding product_by_id_def by (rule find_by_distinct_key)
qed










lemma current_sale_last:
  "current_sale (s\<lparr>daily_accessories_sales := xs @ [x]\<rparr>) (Some (length xs)) = Some x"
  by (simp add: current_sale_def)

lemma product_by_id_set_stock:
  "product_by_id (s\<lparr>products := set_stock i n ts (products s)\<rparr>) j =
     (if j = i then map_option (\<lambda>p. p\<lparr>last_updated := ts, stock := n\<rparr>) (product_by_id s j)
      else product_by_id s j)"
  by (simp add: product_by_id_def find_set_stock)




subsection \<open>Editing a sale\<close>










text \<open>
  Claim C6 at a concrete state: stock 3, a sale of 2 units, edited to 10 units. The delta
  \<open>2 - 10\<close> is rejected by \<^verbatim>\<open>update_stock\<close> for insufficient stock, and the stock
  and the ledger stay as they were; \<^verbatim>\<open>edit_sale\<close> does not look at that result and
  writes the row with quantity 10 and total 1000.
\<close>

theorem edit_sale_commits_after_rejection:
  "fst (update_stock ''t'' low_stock_shop 1 (2 - 10) (Sale_edit 2 10)) =
     Inl (InsufficientStock 3) \<and>
   map (\<lambda>x. (s_quantity x, s_sale_price x, s_discount x, s_total x))
     (daily_accessories_sales low_stock_shop) = [(2, 100, 0, 200)] \<and>
   fst (edit_sale ''t'' low_stock_shop (Some 0) (edit_form ''Charger'' 10)) = Inr () \<and>
   map (\<lambda>x. (s_quantity x, s_sale_price x, s_discount x, s_total x))
     (daily_accessories_sales
       (snd (edit_sale ''t'' low_stock_shop (Some 0) (edit_form ''Charger'' 10)))) =
     [(10, 100, 0, 1000)] \<and>
   products (snd (edit_sale ''t'' low_stock_shop (Some 0) (edit_form ''Charger'' 10))) =
     products low_stock_shop \<and>
   stock_history (snd (edit_sale ''t'' low_stock_shop (Some 0) (edit_form ''Charger'' 10))) =
     stock_history low_stock_shop"
  by (simp add: edit_sale_def update_stock_def current_sale_def sale_by_id_def
        product_by_id_def or_zero_text_def edit_form_def low_stock_shop_def first_sale_def
        charger_def Let_def)

section \<open>Invoices\<close>

lemma write_invoice_from_sale_frame:
  assumes "invoice_source f = From_Sale"
  shows "products (snd (write_invoice ts ts' s f sid n qt dt)) = products s \<and>
         stock_history (snd (write_invoice ts ts' s f sid n qt dt)) = stock_history s"
  using assms
  by (simp add: write_invoice_def Let_def split: option.splits prod.splits)

lemma write_invoice_from_sale_failed:
  assumes "invoice_source f = From_Sale"
    and "fst (write_invoice ts ts' s f sid n qt dt) = Inl e"
  shows "snd (write_invoice ts ts' s f sid n qt dt) = s"
  using assms
  by (auto simp: write_invoice_def Let_def split: option.splits prod.splits if_splits)

lemma add_invoice_from_sale_frame:
  assumes "invoice_source f = From_Sale"
  shows "products (snd (add_invoice ts ts' s f)) = products s \<and>
         stock_history (snd (add_invoice ts ts' s f)) = stock_history s"
  using assms
  by (simp add: add_invoice_def Let_def write_invoice_from_sale_frame split: option.splits)

lemma add_invoice_from_sale_failed:
  assumes "invoice_source f = From_Sale" and "fst (add_invoice ts ts' s f) = Inl e"
  shows "snd (add_invoice ts ts' s f) = s"
  using assms
  by (auto simp: add_invoice_def Let_def split: option.splits if_splits
      dest: write_invoice_from_sale_failed)

lemma add_invoice_from_sale_checked:
  assumes src: "invoice_source f = From_Sale"
    and sel: "sale_selector f = Some sid" "sid \<noteq> 0" "sale_by_id s sid = Some sl"
    and form: "invoice_date f = Parsed dt" "customer_name f \<noteq> []"
    and ok: "0 < s_quantity sl" "0 \<le> s_discount sl" "s_discount sl \<le> 100"
    and row: "product_by_name s (s_item sl) = Some row"
  shows "add_invoice ts ts' s f =
    (if s_product_id sl \<noteq> p_id row then (Inl SaleMismatch, s)
     else if filter (\<lambda>i. i_invoice_number i = invoice_number_of ts) (invoices s) \<noteq> []
     then (Inl (InvoiceNumberExists (invoice_number_of ts)), s)
     else
       (Inr (),
        s\<lparr>invoices := invoices s @
            [\<lparr>i_id = invoices_seq s + 1, i_invoice_number = invoice_number_of ts, i_date = dt,
              i_customer_name = customer_name f,
              i_total = real_of_int (s_quantity sl) * sell_price row * (1 - s_discount sl / 100),
              i_vat = real_of_int (s_quantity sl) * sell_price row * (1 - s_discount sl / 100)
                        * (13 / 100),
              i_grand_total =
                real_of_int (s_quantity sl) * sell_price row * (1 - s_discount sl / 100) +
                real_of_int (s_quantity sl) * sell_price row * (1 - s_discount sl / 100)
                  * (13 / 100),
              i_timestamp = ts, i_sale_id = Some sid\<rparr>],
          invoices_seq := invoices_seq s + 1,
          invoice_items := invoice_items s @
            [\<lparr>ii_invoice_id = invoices_seq s + 1, ii_product_id = p_id row,
              ii_quantity = s_quantity sl, ii_unit_price = sell_price row,
              ii_discount = s_discount sl,
              ii_total =
                real_of_int (s_quantity sl) * sell_price row * (1 - s_discount sl / 100)\<rparr>]\<rparr>))"
proof -
  have total: "real_of_int q * p - real_of_int q * p * dc / 100 =
               real_of_int q * p * (1 - dc / 100)" for q p dc
    by (simp add: algebra_simps)
  show ?thesis
    using assms
    by (simp add: add_invoice_def write_invoice_def Let_def total)
qed

lemma add_invoice_from_stock_checked:
  assumes ids: "distinct (map p_id (products s))"
    and src: "invoice_source f = From_Stock"
    and form: "invoice_date f = Parsed dt" "customer_name f \<noteq> []" "product_selector f \<noteq> []"
      "invoice_quantity f = Parsed q" "or_zero_text (invoice_discount f) = Parsed dc"
    and ok: "0 < q" "0 \<le> dc" "dc \<le> 100"
    and row: "product_by_name s (product_selector f) = Some row" "q \<le> stock row"
    and fresh: "filter (\<lambda>i. i_invoice_number i = invoice_number_of ts) (invoices s) = []"
  shows "fst (add_invoice ts ts' s f) = Inr () \<and>
         stock_history (snd (add_invoice ts ts' s f)) =
           stock_history s @
             [\<lparr>h_product_id = p_id row, h_date = ts', quantity_change = - q,
               h_reason = Invoice_of (invoice_number_of ts)\<rparr>] \<and>
         map_option stock (product_by_id (snd (add_invoice ts ts' s f)) (p_id row)) =
           Some (stock row - q)"
proof -
  have byid: "product_by_id s (p_id row) = Some row"
    using ids row(1) by (rule product_by_name_id)
  have byid': "product_by_id (s\<lparr>invoices := a, invoices_seq := b, invoice_items := c\<rparr>) (p_id row)
                 = Some row" for a b c
    using byid by (simp add: product_by_id_def)
  have nonneg: "0 \<le> stock row + (- q)" using row(2) by simp
  note upd = update_stock_accepted [OF byid' nonneg]
  have q: "\<not> q \<le> 0" "\<not> stock row < q" using ok(1) row(2) by simp_all
  show ?thesis
    using src form ok row(1) fresh q byid
    by (simp add: add_invoice_def write_invoice_def Let_def upd product_by_id_def
          find_set_stock)
qed

text \<open>
  Claim C8, as the code has it. An invoice from a sale takes the product name, the quantity
  and the discount from the referenced sale row; the quantity and discount fields of the
  form are not read. Such an invoice never changes the products table or the ledger, and
  when it fails the state is as it was. Once a sale is selected and found, date and
  customer are filled in, the date is well formed, the sale's quantity is positive, its
  discount is between 0 and 100 and its item names a product: if that product's id is not
  the sale's product id the result is \<open>SaleMismatch\<close> and nothing is written; if it is,
  and the invoice number is not in use, the invoice and its one item are appended. An
  invoice from stock that passes its checks (ids distinct) appends one ledger row with delta
  minus the quantity and lowers the stock by it.
\<close>

theorem add_invoice_from_sale:
  "(invoice_source f = From_Sale \<longrightarrow>
      products (snd (add_invoice ts ts' s f)) = products s \<and>
      stock_history (snd (add_invoice ts ts' s f)) = stock_history s \<and>
      (\<forall>e. fst (add_invoice ts ts' s f) = Inl e \<longrightarrow> snd (add_invoice ts ts' s f) = s) \<and>
      (\<forall>sid sl dt row.
         sale_selector f = Some sid \<and> sid \<noteq> 0 \<and> sale_by_id s sid = Some sl \<and>
         invoice_date f = Parsed dt \<and> customer_name f \<noteq> [] \<and>
         0 < s_quantity sl \<and> 0 \<le> s_discount sl \<and> s_discount sl \<le> 100 \<and>
         product_by_name s (s_item sl) = Some row \<longrightarrow>
           (s_product_id sl \<noteq> p_id row \<longrightarrow>
              add_invoice ts ts' s f = (Inl SaleMismatch, s)) \<and>
           (s_product_id sl = p_id row \<and>
            filter (\<lambda>i. i_invoice_number i = invoice_number_of ts) (invoices s) = [] \<longrightarrow>
              fst (add_invoice ts ts' s f) = Inr () \<and>
              map (\<lambda>i. (i_invoice_number i, i_sale_id i)) (invoices (snd (add_invoice ts ts' s f))) =
                map (\<lambda>i. (i_invoice_number i, i_sale_id i)) (invoices s) @
                  [(invoice_number_of ts, Some sid)] \<and>
              invoice_items (snd (add_invoice ts ts' s f)) =
                invoice_items s @
                  [\<lparr>ii_invoice_id = invoices_seq s + 1, ii_product_id = p_id row,
                    ii_quantity = s_quantity sl, ii_unit_price = sell_price row,
                    ii_discount = s_discount sl,
                    ii_total = real_of_int (s_quantity sl) * sell_price row *
                                 (1 - s_discount sl / 100)\<rparr>]))) \<and>
   (\<forall>dt q dc row.
      distinct (map p_id (products s)) \<and> invoice_source f = From_Stock \<and>
      invoice_date f = Parsed dt \<and> customer_name f \<noteq> [] \<and> product_selector f \<noteq> [] \<and>
      invoice_quantity f = Parsed q \<and> or_zero_text (invoice_discount f) = Parsed dc \<and>
      0 < q \<and> 0 \<le> dc \<and> dc \<le> 100 \<and>
      product_by_name s (product_selector f) = Some row \<and> q \<le> stock row \<and>
      filter (\<lambda>i. i_invoice_number i = invoice_number_of ts) (invoices s) = [] \<longrightarrow>
        fst (add_invoice ts ts' s f) = Inr () \<and>
        stock_history (snd (add_invoice ts ts' s f)) =
          stock_history s @
            [\<lparr>h_product_id = p_id row, h_date = ts', quantity_change = - q,
              h_reason = Invoice_of (invoice_number_of ts)\<rparr>] \<and>
        map_option stock (product_by_id (snd (add_invoice ts ts' s f)) (p_id row)) =
          Some (stock row - q))"
proof (intro conjI impI allI)
  assume src: "invoice_source f = From_Sale"
  from add_invoice_from_sale_frame [OF src]
  show "products (snd (add_invoice ts ts' s f)) = products s"
    and "stock_history (snd (add_invoice ts ts' s f)) = stock_history s"
    by simp_all
  {
    fix e assume "fst (add_invoice ts ts' s f) = Inl e"
    with src show "snd (add_invoice ts ts' s f) = s" by (rule add_invoice_from_sale_failed)
  }
  fix sid sl dt row
  assume c: "sale_selector f = Some sid \<and> sid \<noteq> 0 \<and> sale_by_id s sid = Some sl \<and>
         invoice_date f = Parsed dt \<and> customer_name f \<noteq> [] \<and>
         0 < s_quantity sl \<and> 0 \<le> s_discount sl \<and> s_discount sl \<le> 100 \<and>
         product_by_name s (s_item sl) = Some row"
  then have run: "add_invoice ts ts' s f =
    (if s_product_id sl \<noteq> p_id row then (Inl SaleMismatch, s)
     else if filter (\<lambda>i. i_invoice_number i = invoice_number_of ts) (invoices s) \<noteq> []
     then (Inl (InvoiceNumberExists (invoice_number_of ts)), s)
     else
       (Inr (),
        s\<lparr>invoices := invoices s @
            [\<lparr>i_id = invoices_seq s + 1, i_invoice_number = invoice_number_of ts, i_date = dt,
              i_customer_name = customer_name f,
              i_total = real_of_int (s_quantity sl) * sell_price row * (1 - s_discount sl / 100),
              i_vat = real_of_int (s_quantity sl) * sell_price row * (1 - s_discount sl / 100)
                        * (13 / 100),
              i_grand_total =
                real_of_int (s_quantity sl) * sell_price row * (1 - s_discount sl / 100) +
                real_of_int (s_quantity sl) * sell_price row * (1 - s_discount sl / 100)
                  * (13 / 100),
              i_timestamp = ts, i_sale_id = Some sid\<rparr>],
          invoices_seq := invoices_seq s + 1,
          invoice_items := invoice_items s @
            [\<lparr>ii_invoice_id = invoices_seq s + 1, ii_product_id = p_id row,
              ii_quantity = s_quantity sl, ii_unit_price = sell_price row,
              ii_discount = s_discount sl,
              ii_total =
                real_of_int (s_quantity sl) * sell_price row * (1 - s_discount sl / 100)\<rparr>]\<rparr>))"
    using src by (intro add_invoice_from_sale_checked) simp_all
  {
    assume "s_product_id sl \<noteq> p_id row"
    then show "add_invoice ts ts' s f = (Inl SaleMismatch, s)" by (simp add: run)
  }
  assume m: "s_product_id sl = p_id row \<and>
            filter (\<lambda>i. i_invoice_number i = invoice_number_of ts) (invoices s) = []"
  show "fst (add_invoice ts ts' s f) = Inr ()" using m by (simp add: run)
  show "map (\<lambda>i. (i_invoice_number i, i_sale_id i)) (invoices (snd (add_invoice ts ts' s f))) =
                map (\<lambda>i. (i_invoice_number i, i_sale_id i)) (invoices s) @
                  [(invoice_number_of ts, Some sid)]"
    using m by (simp add: run)
  show "invoice_items (snd (add_invoice ts ts' s f)) =
                invoice_items s @
                  [\<lparr>ii_invoice_id = invoices_seq s + 1, ii_product_id = p_id row,
                    ii_quantity = s_quantity sl, ii_unit_price = sell_price row,
                    ii_discount = s_discount sl,
                    ii_total = real_of_int (s_quantity sl) * sell_price row *
                                 (1 - s_discount sl / 100)\<rparr>]"
    using m by (simp add: run)
next
  fix dt q dc row
  assume c: "distinct (map p_id (products s)) \<and> invoice_source f = From_Stock \<and>
      invoice_date f = Parsed dt \<and> customer_name f \<noteq> [] \<and> product_selector f \<noteq> [] \<and>
      invoice_quantity f = Parsed q \<and> or_zero_text (invoice_discount f) = Parsed dc \<and>
      0 < q \<and> 0 \<le> dc \<and> dc \<le> 100 \<and>
      product_by_name s (product_selector f) = Some row \<and> q \<le> stock row \<and>
      filter (\<lambda>i. i_invoice_number i = invoice_number_of ts) (invoices s) = []"
  then have "fst (add_invoice ts ts' s f) = Inr () \<and>
        stock_history (snd (add_invoice ts ts' s f)) =
          stock_history s @
            [\<lparr>h_product_id = p_id row, h_date = ts', quantity_change = - q,
              h_reason = Invoice_of (invoice_number_of ts)\<rparr>] \<and>
        map_option stock (product_by_id (snd (add_invoice ts ts' s f)) (p_id row)) =
          Some (stock row - q)"
    using add_invoice_from_stock_checked [of s f dt q dc row ts ts'] by blast
  then show "fst (add_invoice ts ts' s f) = Inr ()"
    and "stock_history (snd (add_invoice ts ts' s f)) =
          stock_history s @
            [\<lparr>h_product_id = p_id row, h_date = ts', quantity_change = - q,
              h_reason = Invoice_of (invoice_number_of ts)\<rparr>]"
    and "map_option stock (product_by_id (snd (add_invoice ts ts' s f)) (p_id row)) =
          Some (stock row - q)"
    by simp_all
qed

lemma invoicing_shop_ids: "distinct (map p_id (products invoicing_shop))"
  by (simp add: invoicing_shop_def charger_def cable_def)

theorem add_invoice_from_sale_witness:
  "fst (add_invoice ''2025-01-03 10:00:00'' ''2025-01-03 10:00:01'' invoicing_shop
         (invoice_for From_Sale (Some 1) ''Ram'' ''Charger'' 2)) = Inr () \<and>
   products (snd (add_invoice ''2025-01-03 10:00:00'' ''2025-01-03 10:00:01'' invoicing_shop
         (invoice_for From_Sale (Some 1) ''Ram'' ''Charger'' 2))) = [charger, cable] \<and>
   stock_history (snd (add_invoice ''2025-01-03 10:00:00'' ''2025-01-03 10:00:01''
         invoicing_shop (invoice_for From_Sale (Some 1) ''Ram'' ''Charger'' 2))) = [] \<and>
   map (\<lambda>i. (ii_product_id i, ii_quantity i, ii_total i))
     (invoice_items (snd (add_invoice ''2025-01-03 10:00:00'' ''2025-01-03 10:00:01''
         invoicing_shop (invoice_for From_Sale (Some 1) ''Ram'' ''Charger'' 2)))) =
     [(1, 2, 200)] \<and>
   add_invoice ''2025-01-03 10:00:00'' ''2025-01-03 10:00:01'' invoicing_shop
     (invoice_for From_Sale (Some 2) ''Ram'' ''Cable'' 1) = (Inl SaleMismatch, invoicing_shop) \<and>
   map quantity_change
     (stock_history (snd (add_invoice ''2025-01-03 10:00:00'' ''2025-01-03 10:00:01''
         invoicing_shop (invoice_for From_Stock None ''Ram'' ''Charger'' 3)))) = [- 3]"
proof -
  let ?t = "''2025-01-03 10:00:00''" and ?t' = "''2025-01-03 10:00:01''"
  let ?f1 = "invoice_for From_Sale (Some 1) ''Ram'' ''Charger'' 2"
  let ?f2 = "invoice_for From_Sale (Some 2) ''Ram'' ''Cable'' 1"
  let ?f3 = "invoice_for From_Stock None ''Ram'' ''Charger'' 3"
  have fresh: "filter (\<lambda>i. i_invoice_number i = invoice_number_of ?t) (invoices invoicing_shop) = []"
    by (simp add: invoicing_shop_def)
  have src: "invoice_source ?f1 = From_Sale" "invoice_source ?f2 = From_Sale"
    by (simp_all add: invoice_for_def)
  have h1: "sale_selector ?f1 = Some 1 \<and> (1::int) \<noteq> 0 \<and>
      sale_by_id invoicing_shop 1 = Some first_sale \<and>
      invoice_date ?f1 = Parsed ''2025-01-03'' \<and> customer_name ?f1 \<noteq> [] \<and>
      0 < s_quantity first_sale \<and> 0 \<le> s_discount first_sale \<and> s_discount first_sale \<le> 100 \<and>
      product_by_name invoicing_shop (s_item first_sale) = Some charger"
    by (simp add: invoice_for_def sale_by_id_def product_by_name_def invoicing_shop_def
          first_sale_def renamed_sale_def charger_def cable_def)
  have m1: "s_product_id first_sale = p_id charger"
    by (simp add: first_sale_def charger_def)
  have h2: "sale_selector ?f2 = Some 2 \<and> (2::int) \<noteq> 0 \<and>
      sale_by_id invoicing_shop 2 = Some renamed_sale \<and>
      invoice_date ?f2 = Parsed ''2025-01-03'' \<and> customer_name ?f2 \<noteq> [] \<and>
      0 < s_quantity renamed_sale \<and> 0 \<le> s_discount renamed_sale \<and>
      s_discount renamed_sale \<le> 100 \<and>
      product_by_name invoicing_shop (s_item renamed_sale) = Some cable"
    by (simp add: invoice_for_def sale_by_id_def product_by_name_def invoicing_shop_def
          first_sale_def renamed_sale_def charger_def cable_def)
  have m2: "s_product_id renamed_sale \<noteq> p_id cable"
    by (simp add: renamed_sale_def cable_def)
  have h3: "distinct (map p_id (products invoicing_shop)) \<and> invoice_source ?f3 = From_Stock \<and>
      invoice_date ?f3 = Parsed ''2025-01-03'' \<and> customer_name ?f3 \<noteq> [] \<and>
      product_selector ?f3 \<noteq> [] \<and> invoice_quantity ?f3 = Parsed 3 \<and>
      or_zero_text (invoice_discount ?f3) = Parsed 0 \<and> (0::int) < 3 \<and> (0::real) \<le> 0 \<and>
      (0::real) \<le> 100 \<and> product_by_name invoicing_shop (product_selector ?f3) = Some charger \<and>
      3 \<le> stock charger \<and>
      filter (\<lambda>i. i_invoice_number i = invoice_number_of ?t) (invoices invoicing_shop) = []"
    using invoicing_shop_ids fresh
    by (simp add: invoice_for_def or_zero_text_def product_by_name_def invoicing_shop_def
          charger_def)
  note a1 = add_invoice_from_sale [of ?f1 ?t ?t' invoicing_shop]
  note a2 = add_invoice_from_sale [of ?f2 ?t ?t' invoicing_shop]
  note a3 = add_invoice_from_sale [of ?f3 ?t ?t' invoicing_shop]
  from a1 src(1) have r1: "products (snd (add_invoice ?t ?t' invoicing_shop ?f1)) =
      products invoicing_shop"
    "stock_history (snd (add_invoice ?t ?t' invoicing_shop ?f1)) = stock_history invoicing_shop"
    by blast+
  from a1 src(1) h1 m1 fresh have r2: "fst (add_invoice ?t ?t' invoicing_shop ?f1) = Inr ()"
    by blast
  from a1 src(1) h1 m1 fresh have r3:
    "invoice_items (snd (add_invoice ?t ?t' invoicing_shop ?f1)) =
       invoice_items invoicing_shop @
         [\<lparr>ii_invoice_id = invoices_seq invoicing_shop + 1, ii_product_id = p_id charger,
           ii_quantity = s_quantity first_sale, ii_unit_price = sell_price charger,
           ii_discount = s_discount first_sale,
           ii_total = real_of_int (s_quantity first_sale) * sell_price charger *
                        (1 - s_discount first_sale / 100)\<rparr>]"
    by blast
  from a2 src(2) h2 m2 have r4:
    "add_invoice ?t ?t' invoicing_shop ?f2 = (Inl SaleMismatch, invoicing_shop)"
    by blast
  from a3 h3 have r5: "stock_history (snd (add_invoice ?t ?t' invoicing_shop ?f3)) =
      stock_history invoicing_shop @
        [\<lparr>h_product_id = p_id charger, h_date = ?t', quantity_change = - 3,
          h_reason = Invoice_of (invoice_number_of ?t)\<rparr>]"
    by blast
  from r1 r2 r3 r4 r5 show ?thesis
    by (simp add: invoicing_shop_def first_sale_def charger_def)
qed

text \<open>
  A referenced sale that matches in product, quantity and discount is not enough: with the
  customer name left empty the invoice is refused and nothing is written.
\<close>

theorem add_invoice_requires_customer:
  "sale_by_id invoicing_shop 1 = Some first_sale \<and>
   product_by_name invoicing_shop (s_item first_sale) = Some charger \<and>
   s_product_id first_sale = p_id charger \<and>
   invoice_quantity (invoice_for From_Sale (Some 1) [] ''Charger'' 2) =
     Parsed (s_quantity first_sale) \<and>
   invoice_discount (invoice_for From_Sale (Some 1) [] ''Charger'' 2) =
     Parsed (s_discount first_sale) \<and>
   add_invoice ''2025-01-03 10:00:00'' ''2025-01-03 10:00:01'' invoicing_shop
     (invoice_for From_Sale (Some 1) [] ''Charger'' 2) = (Inl FieldsRequired, invoicing_shop)"
  by (simp add: add_invoice_def invoice_for_def sale_by_id_def product_by_name_def
        invoicing_shop_def first_sale_def renamed_sale_def charger_def cable_def)

section \<open>The product filter: acceptance\<close>

text \<open>\<open>contains\<close> is the substring test.\<close>

lemma startswith_iff: "startswith hay needle \<longleftrightarrow> (\<exists>ss. hay = needle @ ss)"
  by (induction hay needle rule: startswith.induct) auto

lemma contains_iff: "contains hay needle \<longleftrightarrow> (\<exists>ps ss. hay = ps @ needle @ ss)"
proof (induction hay)
  case Nil
  then show ?case by auto
next
  case (Cons h hay)
  show ?case
  proof
    assume "contains (h # hay) needle"
    then consider "startswith (h # hay) needle" | "contains hay needle" by auto
    then show "\<exists>ps ss. h # hay = ps @ needle @ ss"
    proof cases
      case 1
      then obtain ss where "h # hay = needle @ ss" by (auto simp: startswith_iff)
      then have "h # hay = [] @ needle @ ss" by simp
      then show ?thesis by blast
    next
      case 2
      with Cons.IH obtain ps ss where "hay = ps @ needle @ ss" by blast
      then have "h # hay = (h # ps) @ needle @ ss" by simp
      then show ?thesis by blast
    qed
  next
    assume "\<exists>ps ss. h # hay = ps @ needle @ ss"
    then obtain ps ss where eq: "h # hay = ps @ needle @ ss" by blast
    show "contains (h # hay) needle"
    proof (cases ps)
      case Nil
      with eq have "startswith (h # hay) needle" by (auto simp: startswith_iff)
      then show ?thesis by simp
    next
      case (Cons p ps')
      with eq have "hay = ps' @ needle @ ss" by simp
      with Cons.IH have "contains hay needle" by blast
      then show ?thesis by simp
    qed
  qed
qed

lemma option_bound:
  "(case x of None \<Rightarrow> True | Some b \<Rightarrow> P b) \<longleftrightarrow> (\<forall>v. x = Some v \<longrightarrow> P v)"
  by (cases x) auto

lemma option_search:
  "(case x of None \<Rightarrow> False | Some search \<Rightarrow> search t) \<longleftrightarrow> (\<exists>search. x = Some search \<and> search t)"
  by (cases x) auto

lemma lower_empty: "lower v = [] \<longleftrightarrow> v = []"
  by (simp add: lower_def)

lemma setFilterCriteria_apply_filters:
  "setFilterCriteria re_compile fs0
     [K_name n, K_type t, K_min_buy a, K_max_buy b, K_min_sell c, K_max_sell d,
      K_updated_after u, K_stock_min lo, K_stock_max hi] =
   fs0\<lparr>f_name := (if n \<noteq> [] then lower n else []),
       f_name_regex := (if n \<noteq> [] then re_compile n else None),
       f_type := (if t \<noteq> [] \<and> t \<noteq> ''All Types'' then t else []),
       f_min_buy := a, f_max_buy := b, f_min_sell := c, f_max_sell := d,
       f_updated_after := u, f_stock_min := lo, f_stock_max := hi\<rparr>"
  by (simp add: setFilterCriteria_def)

text \<open>
  Claim C9. With the criteria set as \<^verbatim>\<open>apply_filters\<close> sets them, a row is accepted
  exactly when every criterion that is set holds; a criterion that is not set (an empty
  name, an empty type or \<^verbatim>\<open>"All Types"\<close>, a bound that is \<open>None\<close>, an empty date)
  asks nothing. The price and stock bounds and the date bound are inclusive. The name
  criterion holds when the lowercased name contains the lowercased query, or when the query
  compiles as a pattern and the pattern is found in the lowercased name. When the query is
  not a valid pattern, only the substring test is left.
\<close>

theorem filter_accepts_iff:
  "(filterAcceptsRow
      (setFilterCriteria re_compile fs0
         [K_name n, K_type t, K_min_buy a, K_max_buy b, K_min_sell c, K_max_sell d,
          K_updated_after u, K_stock_min lo, K_stock_max hi]) row \<longleftrightarrow>
      (n \<noteq> [] \<longrightarrow>
         contains (lower (data_or (c_name row) [])) (lower n) \<or>
         (\<exists>search. re_compile n = Some search \<and> search (lower (data_or (c_name row) [])))) \<and>
      (t \<noteq> [] \<and> t \<noteq> ''All Types'' \<longrightarrow> data_or (c_type row) [] = t) \<and>
      (\<forall>v. a = Some v \<longrightarrow> v \<le> data_or (c_buy_price row) 0) \<and>
      (\<forall>v. b = Some v \<longrightarrow> data_or (c_buy_price row) 0 \<le> v) \<and>
      (\<forall>v. c = Some v \<longrightarrow> v \<le> data_or (c_sell_price row) 0) \<and>
      (\<forall>v. d = Some v \<longrightarrow> data_or (c_sell_price row) 0 \<le> v) \<and>
      (\<forall>v. u = Some v \<and> v \<noteq> [] \<longrightarrow> str_le v (data_or (c_last_updated row) [])) \<and>
      (\<forall>v. lo = Some v \<longrightarrow> v \<le> data_or (c_stock row) 0) \<and>
      (\<forall>v. hi = Some v \<longrightarrow> data_or (c_stock row) 0 \<le> v)) \<and>
   (n \<noteq> [] \<and> re_compile n = None \<longrightarrow>
      (filterAcceptsRow (setFilterCriteria re_compile init_filters [K_name n]) row \<longleftrightarrow>
         contains (lower (data_or (c_name row) [])) (lower n)))"
proof
  note fields = setFilterCriteria_apply_filters
  show "filterAcceptsRow
      (setFilterCriteria re_compile fs0
         [K_name n, K_type t, K_min_buy a, K_max_buy b, K_min_sell c, K_max_sell d,
          K_updated_after u, K_stock_min lo, K_stock_max hi]) row \<longleftrightarrow>
      (n \<noteq> [] \<longrightarrow>
         contains (lower (data_or (c_name row) [])) (lower n) \<or>
         (\<exists>search. re_compile n = Some search \<and> search (lower (data_or (c_name row) [])))) \<and>
      (t \<noteq> [] \<and> t \<noteq> ''All Types'' \<longrightarrow> data_or (c_type row) [] = t) \<and>
      (\<forall>v. a = Some v \<longrightarrow> v \<le> data_or (c_buy_price row) 0) \<and>
      (\<forall>v. b = Some v \<longrightarrow> data_or (c_buy_price row) 0 \<le> v) \<and>
      (\<forall>v. c = Some v \<longrightarrow> v \<le> data_or (c_sell_price row) 0) \<and>
      (\<forall>v. d = Some v \<longrightarrow> data_or (c_sell_price row) 0 \<le> v) \<and>
      (\<forall>v. u = Some v \<and> v \<noteq> [] \<longrightarrow> str_le v (data_or (c_last_updated row) [])) \<and>
      (\<forall>v. lo = Some v \<longrightarrow> v \<le> data_or (c_stock row) 0) \<and>
      (\<forall>v. hi = Some v \<longrightarrow> data_or (c_stock row) 0 \<le> v)"
    unfolding filterAcceptsRow_def Let_def fields
    by (simp add: option_bound option_search lower_empty) blast
  show "n \<noteq> [] \<and> re_compile n = None \<longrightarrow>
      (filterAcceptsRow (setFilterCriteria re_compile init_filters [K_name n]) row \<longleftrightarrow>
         contains (lower (data_or (c_name row) [])) (lower n))"
    by (simp add: filterAcceptsRow_def Let_def setFilterCriteria_def init_filters_def
          lower_empty)
qed

theorem filter_accepts_iff_witness:
  "\<not> filterAcceptsRow
       (setFilterCriteria plain_compile init_filters
          [K_name [], K_type ''Chargers'', K_min_buy None, K_max_buy None, K_min_sell None,
           K_max_sell None, K_updated_after None, K_stock_min (Some 1), K_stock_max None])
       (cells_of (charger\<lparr>stock := 0\<rparr>)) \<and>
   filterAcceptsRow
     (setFilterCriteria plain_compile init_filters
        [K_name [], K_type ''Chargers'', K_min_buy None, K_max_buy None, K_min_sell None,
         K_max_sell None, K_updated_after None, K_stock_min (Some 1), K_stock_max None])
     (cells_of (charger\<lparr>stock := 5\<rparr>)) \<and>
   plain_compile ''('' = None \<and>
   filterAcceptsRow (setFilterCriteria plain_compile init_filters [K_name ''(''])
     (cells_of (cable\<lparr>p_name := ''Cable (1m)''\<rparr>)) \<and>
   \<not> filterAcceptsRow (setFilterCriteria plain_compile init_filters [K_name ''(''])
       (cells_of charger)"
proof -
  have invalid: "''('' \<noteq> [] \<and> plain_compile ''('' = None"
    by (simp add: plain_compile_def plain_char_def)
  have found: "contains (lower (data_or (c_name (cells_of (cable\<lparr>p_name := ''Cable (1m)''\<rparr>))) []))
                 (lower ''('')"
    by code_simp
  have missing: "\<not> contains (lower (data_or (c_name (cells_of charger)) [])) (lower ''('')"
    by code_simp
  have zero: "\<not> filterAcceptsRow
       (setFilterCriteria plain_compile init_filters
          [K_name [], K_type ''Chargers'', K_min_buy None, K_max_buy None, K_min_sell None,
           K_max_sell None, K_updated_after None, K_stock_min (Some 1), K_stock_max None])
       (cells_of (charger\<lparr>stock := 0\<rparr>))"
    using filter_accepts_iff [of plain_compile init_filters "[]" "''Chargers''" None None None
        None None "Some 1" None "cells_of (charger\<lparr>stock := 0\<rparr>)"]
    by (simp add: cells_of_def data_or_def charger_def)
  have five: "filterAcceptsRow
     (setFilterCriteria plain_compile init_filters
        [K_name [], K_type ''Chargers'', K_min_buy None, K_max_buy None, K_min_sell None,
         K_max_sell None, K_updated_after None, K_stock_min (Some 1), K_stock_max None])
     (cells_of (charger\<lparr>stock := 5\<rparr>))"
    using filter_accepts_iff [of plain_compile init_filters "[]" "''Chargers''" None None None
        None None "Some 1" None "cells_of (charger\<lparr>stock := 5\<rparr>)"]
    by (simp add: cells_of_def data_or_def charger_def)
  have fallback: "filterAcceptsRow (setFilterCriteria plain_compile init_filters [K_name ''(''])
     (cells_of (cable\<lparr>p_name := ''Cable (1m)''\<rparr>))"
    using filter_accepts_iff [where re_compile = plain_compile and n = "''(''" and
        row = "cells_of (cable\<lparr>p_name := ''Cable (1m)''\<rparr>)", THEN conjunct2] invalid found
    by blast
  have no_match: "\<not> filterAcceptsRow (setFilterCriteria plain_compile init_filters [K_name ''(''])
       (cells_of charger)"
    using filter_accepts_iff [where re_compile = plain_compile and n = "''(''" and
        row = "cells_of charger", THEN conjunct2] invalid missing
    by blast
  from zero five invalid fallback no_match show ?thesis by blast
qed

end
